theory Spec2Isabelle
  imports Complex_Main
begin

section \<open>Catalog and selection records\<close>

text \<open>
  The interfaces of the customization dialogs (\<^verbatim>\<open>DishCustomizationDialog\<close> and
  \<^verbatim>\<open>DishCustomizationDialogKids\<close>) and of the menu pages. A JavaScript \<^verbatim>\<open>number\<close>
  holding a price is carried as the \<^typ>\<open>real\<close> it denotes and never computed with: the
  additions and products of prices are rounded double arithmetic in the source and are
  left out. A \<^verbatim>\<open>number\<close> holding a quantity or an index is an \<^typ>\<open>int\<close>.
  Fields \<^verbatim>\<open>id\<close> and \<^verbatim>\<open>name\<close> carry the record's name as a prefix, since every
  interface of the source has them.
\<close>

record Dish =
  dish_id :: string
  dish_name :: string
  description :: "string option"
  price :: real
  category :: string
  image_url :: "string option"
  is_available :: bool

record DishOption =
  option_id :: string
  option_name :: string
  price_modifier :: real

record DishOptionGroup =
  group_id :: string
  group_name :: string
  is_required :: bool
  allow_multiple :: bool
  options :: "DishOption list"

record SelectedOption =
  groupId :: string
  groupName :: string
  optionId :: string
  optionName :: string
  priceModifier :: real

section \<open>Customization dialog: selection updates and validation\<close>

text \<open>The object literal both handlers insert for a group and one of its options.\<close>

definition selectionOf :: "DishOptionGroup \<Rightarrow> DishOption \<Rightarrow> SelectedOption" where
  "selectionOf grp opt =
     \<lparr>groupId = group_id grp, groupName = group_name grp,
      optionId = option_id opt, optionName = option_name opt,
      priceModifier = price_modifier opt\<rparr>"

text \<open>
  \<^verbatim>\<open>handleOptionToggle(group, option, checked)\<close>: the argument \<open>selectedOptions\<close> is the
  state before the call, the result is the value passed to \<^verbatim>\<open>setSelectedOptions\<close>.
\<close>

definition handleOptionToggle ::
  "DishOptionGroup \<Rightarrow> DishOption \<Rightarrow> bool \<Rightarrow> SelectedOption list \<Rightarrow> SelectedOption list" where
  "handleOptionToggle grp opt checked selectedOptions =
     (if checked then
        (if allow_multiple grp then selectedOptions @ [selectionOf grp opt]
         else filter (\<lambda>s. groupId s \<noteq> group_id grp) selectedOptions @ [selectionOf grp opt])
      else filter (\<lambda>s. optionId s \<noteq> option_id opt) selectedOptions)"

text \<open>
  \<^verbatim>\<open>handleRadioChange(group, optionId)\<close>: returns early, leaving the state as it is, when
  the group has no option of that id.
\<close>

definition handleRadioChange ::
  "DishOptionGroup \<Rightarrow> string \<Rightarrow> SelectedOption list \<Rightarrow> SelectedOption list" where
  "handleRadioChange grp oid selectedOptions =
     (case find (\<lambda>opt. option_id opt = oid) (options grp) of
        None \<Rightarrow> selectedOptions
      | Some opt \<Rightarrow>
          filter (\<lambda>s. groupId s \<noteq> group_id grp) selectedOptions @ [selectionOf grp opt])"

definition isGroupValid :: "SelectedOption list \<Rightarrow> DishOptionGroup \<Rightarrow> bool" where
  "isGroupValid selectedOptions grp =
     (if \<not> is_required grp then True
      else list_ex (\<lambda>s. groupId s = group_id grp) selectedOptions)"

definition canAddToCart :: "DishOptionGroup list \<Rightarrow> SelectedOption list \<Rightarrow> bool" where
  "canAddToCart optionGroups selectedOptions = list_all (isGroupValid selectedOptions) optionGroups"

text \<open>The number of selections that reference a group.\<close>

definition selectionCount :: "SelectedOption list \<Rightarrow> DishOptionGroup \<Rightarrow> nat" where
  "selectionCount selectedOptions grp =
     length (filter (\<lambda>s. groupId s = group_id grp) selectedOptions)"

text \<open>
  Per-group validity as the specification words it (three cases), stated apart from
  the source's \<^const>\<open>isGroupValid\<close> so that the two can be compared.
\<close>

definition isGroupValid_spec :: "SelectedOption list \<Rightarrow> DishOptionGroup \<Rightarrow> bool" where
  "isGroupValid_spec selectedOptions grp =
     (if \<not> is_required grp then True
      else if \<not> allow_multiple grp then selectionCount selectedOptions grp = 1
      else 1 \<le> selectionCount selectedOptions grp)"

section \<open>Menu pages: the cart\<close>

text \<open>
  \<^verbatim>\<open>CartItem extends Dish\<close> with a quantity and two optional fields; an absent optional
  field (\<^verbatim>\<open>undefined\<close>) is \<^const>\<open>None\<close>.
\<close>

record CartItem = Dish +
  quantity :: int
  comment :: "string option"
  selectedOptions :: "SelectedOption list option"

text \<open>The object literal \<^verbatim>\<open>{ ...dish, quantity, selectedOptions, comment }\<close>.\<close>

definition cartItemOf ::
  "Dish \<Rightarrow> int \<Rightarrow> SelectedOption list option \<Rightarrow> string option \<Rightarrow> CartItem" where
  "cartItemOf dish q sel cmt =
     \<lparr>dish_id = dish_id dish, dish_name = dish_name dish, description = description dish,
      price = price dish, category = category dish, image_url = image_url dish,
      is_available = is_available dish,
      quantity = q, comment = cmt, selectedOptions = sel\<rparr>"

text \<open>
  \<^verbatim>\<open>addToCart(dish, selectedOptions, comment)\<close> of the menu page with options and of
  the kids' menu page: the updater given to \<^verbatim>\<open>setCart\<close>, applied to the previous cart.
  \<^verbatim>\<open>comment || undefined\<close> turns the empty string into an absent comment.
\<close>

definition addToCart :: "Dish \<Rightarrow> SelectedOption list \<Rightarrow> string \<Rightarrow> CartItem list \<Rightarrow> CartItem list" where
  "addToCart dish sel cmt prev =
     prev @ [cartItemOf dish 1 (Some sel) (if cmt = [] then None else Some cmt)]"

text \<open>
  \<^verbatim>\<open>addToCart(dish)\<close> of the menu page without options: a dish already in the cart has
  its quantity incremented, any other dish is appended with quantity 1.
\<close>

definition addToCart_plain :: "Dish \<Rightarrow> CartItem list \<Rightarrow> CartItem list" where
  "addToCart_plain dish prev =
     (case find (\<lambda>item. dish_id item = dish_id dish) prev of
        Some existing \<Rightarrow>
          map (\<lambda>item. if dish_id item = dish_id dish
                       then item\<lparr>quantity := quantity item + 1\<rparr> else item) prev
      | None \<Rightarrow> prev @ [cartItemOf dish 1 None None])"

text \<open>
  \<^verbatim>\<open>removeFromCart(itemIndex)\<close> and \<^verbatim>\<open>updateCartItem(itemIndex, quantity, comment)\<close>:
  \<^verbatim>\<open>filter\<close> and \<^verbatim>\<open>map\<close> with the position \<^verbatim>\<open>idx\<close> of each item, compared with the
  index argument, which is any integer. An omitted \<^verbatim>\<open>comment\<close> argument is \<^const>\<open>None\<close>.
\<close>

definition removeFromCart :: "int \<Rightarrow> CartItem list \<Rightarrow> CartItem list" where
  "removeFromCart itemIndex prev =
     map snd (filter (\<lambda>(idx, item). int idx \<noteq> itemIndex) (enumerate 0 prev))"

definition updateCartItem :: "int \<Rightarrow> int \<Rightarrow> string option \<Rightarrow> CartItem list \<Rightarrow> CartItem list" where
  "updateCartItem itemIndex q cmt prev =
     (if q = 0
      then map snd (filter (\<lambda>(idx, item). int idx \<noteq> itemIndex) (enumerate 0 prev))
      else map (\<lambda>(idx, item). if int idx = itemIndex
                               then item\<lparr>quantity := q, comment := cmt\<rparr> else item)
             (enumerate 0 prev))"

definition getTotalItems :: "CartItem list \<Rightarrow> int" where
  "getTotalItems cart_items = foldl (\<lambda>sum item. sum + quantity item) 0 cart_items"

section \<open>Menu page and dialog as one state\<close>

text \<open>
  The state of a menu page together with its customization dialog: the page's cart,
  the dish handed to the dialog and whether it is open, the dialog's own option groups,
  selection, comment and loading flag, and two logs of the effects: the toasts shown and
  the requests sent to the backend.
\<close>

datatype toast = OptionsManquantes | AjouteAuPanier string | ErreurOptions

datatype backend_call = FetchDishes | FetchOptionGroups string

record MenuState =
  cart :: "CartItem list"
  selectedDish :: "Dish option"
  isCustomizationOpen :: bool
  optionGroups :: "DishOptionGroup list"
  dialogSelectedOptions :: "SelectedOption list"
  dialogComment :: string
  isLoading :: bool
  toasts :: "toast list"
  backendCalls :: "backend_call list"






definition fetchOptionGroupsFailed :: "MenuState \<Rightarrow> MenuState" where
  "fetchOptionGroupsFailed st = st\<lparr>toasts := toasts st @ [ErreurOptions], isLoading := False\<rparr>"

text \<open>The page's \<^verbatim>\<open>addToCart\<close> as the dialog calls it, with the toast it shows.\<close>

definition onAddToCart :: "Dish \<Rightarrow> SelectedOption list \<Rightarrow> string \<Rightarrow> MenuState \<Rightarrow> MenuState" where
  "onAddToCart dish sel cmt st =
     st\<lparr>cart := addToCart dish sel cmt (cart st),
        toasts := toasts st @ [AjouteAuPanier (dish_name dish)]\<rparr>"

text \<open>
  \<^verbatim>\<open>onClose\<close>: the effect runs again on the closed dialog and its body does nothing.
\<close>

definition onClose :: "MenuState \<Rightarrow> MenuState" where
  "onClose st = st\<lparr>isCustomizationOpen := False\<rparr>"

text \<open>\<^verbatim>\<open>handleAddToCart()\<close> of both dialogs.\<close>

definition handleAddToCart :: "MenuState \<Rightarrow> MenuState" where
  "handleAddToCart st =
     (case selectedDish st of
        None \<Rightarrow> st
      | Some dish \<Rightarrow>
          if \<not> canAddToCart (optionGroups st) (dialogSelectedOptions st)
          then st\<lparr>toasts := toasts st @ [OptionsManquantes]\<rparr>
          else onClose (onAddToCart dish (dialogSelectedOptions st) (dialogComment st) st))"

text \<open>
  A call of one of the two selection handlers, and a sequence of calls applied to the empty
  selection the dialog opens with.
\<close>

datatype selection_event =
  Toggle DishOptionGroup DishOption bool
  | Radio DishOptionGroup string

fun applyEvent :: "SelectedOption list \<Rightarrow> selection_event \<Rightarrow> SelectedOption list" where
  "applyEvent sel (Toggle grp opt checked) = handleOptionToggle grp opt checked sel"
| "applyEvent sel (Radio grp oid) = handleRadioChange grp oid sel"

fun eventGroup :: "selection_event \<Rightarrow> DishOptionGroup" where
  "eventGroup (Toggle grp opt checked) = grp"
| "eventGroup (Radio grp oid) = grp"

definition runEvents :: "selection_event list \<Rightarrow> SelectedOption list" where
  "runEvents evs = foldl applyEvent [] evs"




section \<open>Orders: status lifecycle in the staff dashboard\<close>

datatype OrderStatus = received | preparing | ready | served | paid

record OrderItem =
  item_id :: string
  item_quantity :: int
  unit_price :: real
  subtotal :: real
  item_comment :: "string option"
  options_selected :: "SelectedOption list"
  item_dish_name :: string

record Order =
  order_id :: string
  table_id :: string
  total :: real
  status :: OrderStatus
  created_at :: string
  order_items :: "OrderItem list"
  table_number :: int

datatype order_toast = StatutMisAJour | ErreurMiseAJour | ErreurChargement

text \<open>
  A dashboard page holds its own copy of the orders, filled by \<^verbatim>\<open>fetchOrders\<close>; the
  orders table of the backend is a list of its own, shared by all pages. A state of the
  staff interface is the table together with a page.
\<close>

record Dashboard =
  orders :: "Order list"
  loading :: bool
  orderToasts :: "order_toast list"

text \<open>
  \<^verbatim>\<open>fetchOrders()\<close>: the page takes the rows of the table, in the order the query gives
  them; \<open>ok\<close> is the backend's answer.
\<close>

definition fetchOrders :: "bool \<Rightarrow> Order list \<Rightarrow> Dashboard \<Rightarrow> Dashboard" where
  "fetchOrders ok db page =
     (if ok then page\<lparr>orders := db, loading := False\<rparr>
      else page\<lparr>orderToasts := orderToasts page @ [ErreurChargement], loading := False\<rparr>)"

text \<open>
  The status buttons rendered in an order's card, as the list of the \<^verbatim>\<open>newStatus\<close>
  arguments their \<^verbatim>\<open>onClick\<close> passes to \<^verbatim>\<open>updateOrderStatus\<close>: four conditional
  buttons, in the order of the markup, on the page's copy of the order.
\<close>

definition offeredActions :: "Order \<Rightarrow> OrderStatus list" where
  "offeredActions ord =
     (if status ord = received then [preparing] else []) @
     (if status ord = preparing then [ready] else []) @
     (if status ord = ready then [served] else []) @
     (if status ord = served then [paid] else [])"



text \<open>The change notification of the backend makes the page fetch the orders.\<close>

fun ordersChanged :: "bool \<Rightarrow> Order list \<times> Dashboard \<Rightarrow> Order list \<times> Dashboard" where
  "ordersChanged fetched (db, page) = (db, fetchOrders fetched db page)"


text \<open>The status of an order id in a list of orders, and the position of a status in
  the lifecycle.\<close>

definition statusOf :: "string \<Rightarrow> Order list \<Rightarrow> OrderStatus option" where
  "statusOf orderId os = map_option status (find (\<lambda>ord. order_id ord = orderId) os)"

fun statusRank :: "OrderStatus \<Rightarrow> nat" where
  "statusRank received = 0"
| "statusRank preparing = 1"
| "statusRank ready = 2"
| "statusRank served = 3"
| "statusRank paid = 4"

text \<open>
  The page is in step with the table: the status it shows for an order is the stored
  one or the one before it.
\<close>

definition inStep :: "Order list \<Rightarrow> Dashboard \<Rightarrow> bool" where
  "inStep db page =
     (\<forall>k s. statusOf k (orders page) = Some s \<longrightarrow>
        (\<exists>s'. statusOf k db = Some s' \<and> (s' = s \<or> statusRank s' = Suc (statusRank s))))"

section \<open>Order submission\<close>


section \<open>The add operation as specified\<close>

text \<open>
  The cart operation as the specification words it, for comparison with the source's
  \<^const>\<open>addToCart\<close>: "appends a new line item with quantity 1; fails with
  ValidationError if the validator rejects the selection set".
\<close>

datatype cart_error = ValidationError

definition addLineItem_spec ::
  "DishOptionGroup list \<Rightarrow> Dish \<Rightarrow> SelectedOption list \<Rightarrow> string \<Rightarrow> CartItem list
     \<Rightarrow> cart_error + CartItem list" where
  "addLineItem_spec grps dish sel cmt prev =
     (if list_all (isGroupValid_spec sel) grps
      then Inr (prev @ [cartItemOf dish 1 (Some sel) (if cmt = [] then None else Some cmt)])
      else Inl ValidationError)"

section \<open>Example catalog\<close>

text \<open>
  The specification's scenario: a burger at 8.00 with a required single-select group
  "Bread" (Brioche +0.00, Multigrain +0.50), and an optional multi-select group of sauces.
\<close>

definition burger :: Dish where
  "burger = \<lparr>dish_id = ''d1'', dish_name = ''Burger'', description = None, price = 8,
             category = ''hamburger'', image_url = None, is_available = True\<rparr>"

definition pizza :: Dish where
  "pizza = \<lparr>dish_id = ''d2'', dish_name = ''Pizza'', description = None, price = 11/2,
            category = ''pizza'', image_url = None, is_available = True\<rparr>"

definition brioche :: DishOption where
  "brioche = \<lparr>option_id = ''o1'', option_name = ''Brioche'', price_modifier = 0\<rparr>"

definition multigrain :: DishOption where
  "multigrain = \<lparr>option_id = ''o2'', option_name = ''Multigrain'', price_modifier = 1/2\<rparr>"

definition ketchup :: DishOption where
  "ketchup = \<lparr>option_id = ''o3'', option_name = ''Ketchup'', price_modifier = 0\<rparr>"

definition mayonnaise :: DishOption where
  "mayonnaise = \<lparr>option_id = ''o4'', option_name = ''Mayonnaise'', price_modifier = 1/4\<rparr>"

definition bread :: DishOptionGroup where
  "bread = \<lparr>group_id = ''g1'', group_name = ''Bread'', is_required = True,
            allow_multiple = False, options = [brioche, multigrain]\<rparr>"

definition sauces :: DishOptionGroup where
  "sauces = \<lparr>group_id = ''g2'', group_name = ''Sauces'', is_required = False,
             allow_multiple = True, options = [ketchup, mayonnaise]\<rparr>"

definition cartOfTwo :: "CartItem list" where
  "cartOfTwo =
     [cartItemOf burger 1 (Some [selectionOf bread brioche]) (Some ''no onions''),
      cartItemOf pizza 1 (Some []) None]"


definition dialogBlocked :: MenuState where
  "dialogBlocked =
     \<lparr>cart = [], selectedDish = Some burger, isCustomizationOpen = True,
      optionGroups = [bread, sauces], dialogSelectedOptions = [selectionOf sauces ketchup],
      dialogComment = ''no onions'', isLoading = False, toasts = [],
      backendCalls = [FetchDishes, FetchOptionGroups ''d1'']\<rparr>"

definition dialogComplete :: MenuState where
  "dialogComplete = dialogBlocked\<lparr>dialogSelectedOptions := [selectionOf bread multigrain]\<rparr>"





section \<open>Invariants of the selection\<close>

text \<open>At most one selection for every single-select group of a catalog.\<close>

definition singleSelectInv :: "DishOptionGroup list \<Rightarrow> SelectedOption list \<Rightarrow> bool" where
  "singleSelectInv grps sel =
     (\<forall>grp \<in> set grps. \<not> allow_multiple grp \<longrightarrow> selectionCount sel grp \<le> 1)"

text \<open>
  In a catalog an option belongs to one group: two options with the same id sit in
  groups with the same id. The events of a dialog come from the catalog it shows, and
  then so does every selection.
\<close>

definition catalogOk :: "DishOptionGroup list \<Rightarrow> bool" where
  "catalogOk grps =
     (\<forall>g \<in> set grps. \<forall>g' \<in> set grps. \<forall>opt \<in> set (options g). \<forall>opt' \<in> set (options g').
        option_id opt = option_id opt' \<longrightarrow> group_id g = group_id g')"

fun eventFrom :: "DishOptionGroup list \<Rightarrow> selection_event \<Rightarrow> bool" where
  "eventFrom grps (Toggle grp opt checked) = (grp \<in> set grps \<and> opt \<in> set (options grp))"
| "eventFrom grps (Radio grp oid) = (grp \<in> set grps)"

definition selectionFrom :: "DishOptionGroup list \<Rightarrow> SelectedOption list \<Rightarrow> bool" where
  "selectionFrom grps sel =
     (\<forall>s \<in> set sel. \<exists>g \<in> set grps. \<exists>opt \<in> set (options g).
        groupId s = group_id g \<and> optionId s = option_id opt)"

section \<open>Counting selections\<close>

lemmas example_defs =
  burger_def pizza_def brioche_def multigrain_def ketchup_def mayonnaise_def bread_def sauces_def

lemma isGroupValid_count:
  "isGroupValid sel grp = (\<not> is_required grp \<or> 1 \<le> selectionCount sel grp)"
  by (auto simp: isGroupValid_def selectionCount_def list_ex_iff filter_empty_conv Suc_le_eq)

lemma isGroupValid_spec_agree:
  "allow_multiple grp \<or> selectionCount sel grp \<le> 1
     \<Longrightarrow> isGroupValid sel grp = isGroupValid_spec sel grp"
  by (auto simp: isGroupValid_count isGroupValid_spec_def)

lemma selectionCount_append:
  "selectionCount (xs @ ys) grp = selectionCount xs grp + selectionCount ys grp"
  by (simp add: selectionCount_def)

lemma selectionCount_single:
  "selectionCount [selectionOf g opt] grp = (if group_id g = group_id grp then 1 else 0)"
  by (simp add: selectionCount_def selectionOf_def)

lemma selectionCount_filter_le:
  "selectionCount (filter P sel) grp \<le> selectionCount sel grp"
proof -
  have "filter (\<lambda>s. groupId s = group_id grp) (filter P sel)
          = filter P (filter (\<lambda>s. groupId s = group_id grp) sel)"
    by (simp add: conj_commute)
  then show ?thesis
    unfolding selectionCount_def by (metis length_filter_le)
qed

lemma selectionCount_filter_group:
  "selectionCount (filter (\<lambda>s. groupId s \<noteq> group_id g) sel) grp =
     (if group_id g = group_id grp then 0 else selectionCount sel grp)"
  by (induction sel) (auto simp: selectionCount_def)

lemma replace_count:
  "selectionCount (filter (\<lambda>s. groupId s \<noteq> group_id grp) sel @ [selectionOf grp opt]) grp = 1"
  by (simp add: selectionCount_append selectionCount_single selectionCount_filter_group)

lemma group_id_inj:
  "distinct (map group_id grps) \<Longrightarrow> g \<in> set grps \<Longrightarrow> g' \<in> set grps
     \<Longrightarrow> group_id g = group_id g' \<Longrightarrow> g = g'"
  by (auto simp: distinct_map dest: inj_onD)

lemma find_in_set: "find P xs = Some x \<Longrightarrow> x \<in> set xs"
  by (induction xs) (auto split: if_splits)


section \<open>The validator\<close>

text \<open>
  Claim C2, as stated: the source's per-group validity is the three-case definition on
  every selection. It is not: two selections in a required single-select group are valid
  for \<^const>\<open>isGroupValid\<close>, which only asks for some selection of the group.
\<close>

theorem isGroupValid_two_single_selections:
  "isGroupValid [selectionOf bread brioche, selectionOf bread multigrain] bread
     \<noteq> isGroupValid_spec [selectionOf bread brioche, selectionOf bread multigrain] bread"
  by (simp add: isGroupValid_def isGroupValid_spec_def selectionCount_def selectionOf_def
      example_defs)

text \<open>
  Claim C2, amended. A group that is not required is valid; a required group, single- or
  multi-select, is valid exactly when at least one selection references it. On a selection
  with at most one entry for a single-select group this is the three-case definition.
\<close>

theorem isGroupValid_at_least_one:
  "isGroupValid sel grp = (\<not> is_required grp \<or> 1 \<le> selectionCount sel grp) \<and>
   (allow_multiple grp \<or> selectionCount sel grp \<le> 1 \<longrightarrow>
      isGroupValid sel grp = isGroupValid_spec sel grp)"
  using isGroupValid_count isGroupValid_spec_agree by blast

theorem isGroupValid_at_least_one_witness:
  "selectionCount [selectionOf bread multigrain, selectionOf sauces ketchup] bread \<le> 1 \<and>
   isGroupValid [selectionOf bread multigrain, selectionOf sauces ketchup] bread \<and>
   isGroupValid_spec [selectionOf bread multigrain, selectionOf sauces ketchup] bread \<and>
   \<not> isGroupValid [selectionOf sauces ketchup] bread \<and>
   \<not> isGroupValid_spec [selectionOf sauces ketchup] bread"
  using isGroupValid_at_least_one [of "[selectionOf bread multigrain, selectionOf sauces ketchup]" bread]
    isGroupValid_at_least_one [of "[selectionOf sauces ketchup]" bread]
  by (simp add: isGroupValid_def isGroupValid_spec_def selectionCount_def selectionOf_def
      example_defs)

section \<open>Single-select groups: replacement\<close>

lemma replace_keeps_inv:
  assumes "singleSelectInv grps sel"
  shows "singleSelectInv grps (filter (\<lambda>s. groupId s \<noteq> group_id g) sel @ [selectionOf g opt])"
  using assms unfolding singleSelectInv_def
  by (auto simp: selectionCount_append selectionCount_single selectionCount_filter_group)

lemma filter_keeps_inv:
  assumes "singleSelectInv grps sel"
  shows "singleSelectInv grps (filter P sel)"
  using assms unfolding singleSelectInv_def
  by (auto intro: order_trans [OF selectionCount_filter_le])

lemma applyEvent_keeps_inv:
  assumes d: "distinct (map group_id grps)" and g: "eventGroup e \<in> set grps"
    and inv: "singleSelectInv grps sel"
  shows "singleSelectInv grps (applyEvent sel e)"
proof (cases e)
  case (Toggle g opt checked)
  show ?thesis
  proof (cases checked)
    case False
    with Toggle filter_keeps_inv [OF inv] show ?thesis
      by (simp add: handleOptionToggle_def)
  next
    case True
    show ?thesis
    proof (cases "allow_multiple g")
      case False
      with True Toggle replace_keeps_inv [OF inv] show ?thesis
        by (simp add: handleOptionToggle_def)
    next
      case multi: True
      have "selectionCount (sel @ [selectionOf g opt]) grp = selectionCount sel grp"
        if "grp \<in> set grps" "\<not> allow_multiple grp" for grp
      proof -
        have "group_id g \<noteq> group_id grp"
          using group_id_inj [OF d, of g grp] g Toggle that multi by auto
        then show ?thesis
          by (simp add: selectionCount_append selectionCount_single)
      qed
      with inv True multi Toggle show ?thesis
        unfolding singleSelectInv_def by (simp add: handleOptionToggle_def)
    qed
  qed
next
  case (Radio g oid)
  with inv replace_keeps_inv [OF inv] show ?thesis
    by (simp add: handleRadioChange_def split: option.splits)
qed

lemma foldl_keeps_inv:
  assumes d: "distinct (map group_id grps)"
  shows "\<forall>e \<in> set evs. eventGroup e \<in> set grps \<Longrightarrow> singleSelectInv grps sel
           \<Longrightarrow> singleSelectInv grps (foldl applyEvent sel evs)"
  by (induction evs arbitrary: sel) (simp_all add: applyEvent_keeps_inv [OF d])

lemma runEvents_inv:
  "distinct (map group_id grps) \<Longrightarrow> \<forall>e \<in> set evs. eventGroup e \<in> set grps
     \<Longrightarrow> singleSelectInv grps (runEvents evs)"
  unfolding runEvents_def
  by (rule foldl_keeps_inv) (simp_all add: singleSelectInv_def selectionCount_def)

text \<open>
  Claim C3. In a single-select group, choosing an option (\<^const>\<open>handleOptionToggle\<close>
  with \<open>checked\<close>, or \<^const>\<open>handleRadioChange\<close> with an option of the group) removes
  every selection of the group and appends the new one, which leaves exactly one
  selection for the group. After any sequence of the two handlers from the empty selection,
  on the groups of a catalog whose group ids are distinct, every single-select group has at
  most one selection.
\<close>

theorem single_select_replacement:
  "(\<not> allow_multiple grp \<longrightarrow>
      handleOptionToggle grp opt True sel =
        filter (\<lambda>s. groupId s \<noteq> group_id grp) sel @ [selectionOf grp opt] \<and>
      selectionCount (handleOptionToggle grp opt True sel) grp = 1) \<and>
   (find (\<lambda>opt. option_id opt = oid) (options grp) = Some opt \<longrightarrow>
      handleRadioChange grp oid sel =
        filter (\<lambda>s. groupId s \<noteq> group_id grp) sel @ [selectionOf grp opt] \<and>
      selectionCount (handleRadioChange grp oid sel) grp = 1) \<and>
   (distinct (map group_id grps) \<and> (\<forall>e \<in> set evs. eventGroup e \<in> set grps) \<and>
    grp \<in> set grps \<and> \<not> allow_multiple grp \<longrightarrow>
      selectionCount (runEvents evs) grp \<le> 1)"
proof -
  have "selectionCount (runEvents evs) grp \<le> 1"
    if "distinct (map group_id grps)" "\<forall>e \<in> set evs. eventGroup e \<in> set grps"
       "grp \<in> set grps" "\<not> allow_multiple grp"
    using runEvents_inv [OF that(1,2)] that(3,4) by (simp add: singleSelectInv_def)
  then show ?thesis
    by (simp add: handleOptionToggle_def handleRadioChange_def replace_count)
qed

theorem single_select_replacement_witness:
  "\<not> allow_multiple bread \<and>
   handleOptionToggle bread multigrain True [selectionOf bread brioche, selectionOf sauces ketchup]
     = [selectionOf sauces ketchup, selectionOf bread multigrain] \<and>
   find (\<lambda>opt. option_id opt = ''o2'') (options bread) = Some multigrain \<and>
   handleRadioChange bread ''o2'' [selectionOf bread brioche, selectionOf sauces ketchup]
     = [selectionOf sauces ketchup, selectionOf bread multigrain] \<and>
   selectionCount
     (handleRadioChange bread ''o2'' [selectionOf bread brioche, selectionOf sauces ketchup])
     bread = 1 \<and>
   distinct (map group_id [bread, sauces]) \<and>
   runEvents [Radio bread ''o1'', Toggle sauces ketchup True, Toggle bread multigrain True,
              Toggle sauces mayonnaise True, Radio bread ''o1'']
     = [selectionOf sauces ketchup, selectionOf sauces mayonnaise, selectionOf bread brioche] \<and>
   selectionCount
     (runEvents [Radio bread ''o1'', Toggle sauces ketchup True, Toggle bread multigrain True,
                 Toggle sauces mayonnaise True, Radio bread ''o1''])
     bread \<le> 1"
proof -
  have single: "\<not> allow_multiple bread"
    by (simp add: example_defs)
  have found: "find (\<lambda>opt. option_id opt = ''o2'') (options bread) = Some multigrain"
    by (simp add: example_defs)
  have ids: "distinct (map group_id [bread, sauces])"
    by (simp add: example_defs)
  have mem: "bread \<in> set [bread, sauces]"
    by simp
  have evs: "\<forall>e \<in> set [Radio bread ''o1'', Toggle sauces ketchup True,
                        Toggle bread multigrain True, Toggle sauces mayonnaise True,
                        Radio bread ''o1'']. eventGroup e \<in> set [bread, sauces]"
    by simp
  have run: "runEvents [Radio bread ''o1'', Toggle sauces ketchup True,
                        Toggle bread multigrain True, Toggle sauces mayonnaise True,
                        Radio bread ''o1'']
     = [selectionOf sauces ketchup, selectionOf sauces mayonnaise, selectionOf bread brioche]"
    by (simp add: runEvents_def handleRadioChange_def handleOptionToggle_def selectionOf_def
        example_defs)
  have radio: "handleRadioChange bread ''o2'' [selectionOf bread brioche, selectionOf sauces ketchup]
     = [selectionOf sauces ketchup, selectionOf bread multigrain]"
    by (simp add: handleRadioChange_def selectionOf_def example_defs)
  have toggle: "handleOptionToggle bread multigrain True
       [selectionOf bread brioche, selectionOf sauces ketchup]
     = [selectionOf sauces ketchup, selectionOf bread multigrain]"
    by (simp add: handleOptionToggle_def selectionOf_def example_defs)
  from single_select_replacement [of bread multigrain
      "[selectionOf bread brioche, selectionOf sauces ketchup]" "''o2''" "[bread, sauces]"
      "[Radio bread ''o1'', Toggle sauces ketchup True, Toggle bread multigrain True,
        Toggle sauces mayonnaise True, Radio bread ''o1'']"]
    single found ids evs mem
  have "selectionCount
     (handleRadioChange bread ''o2'' [selectionOf bread brioche, selectionOf sauces ketchup])
     bread = 1"
    and "selectionCount
     (runEvents [Radio bread ''o1'', Toggle sauces ketchup True, Toggle bread multigrain True,
                 Toggle sauces mayonnaise True, Radio bread ''o1''])
     bread \<le> 1"
    by blast+
  with single found ids run radio toggle show ?thesis
    by simp
qed

section \<open>Multi-select groups: toggling\<close>

lemma selectionFrom_append:
  "selectionFrom grps (xs @ ys) = (selectionFrom grps xs \<and> selectionFrom grps ys)"
  by (auto simp: selectionFrom_def)

lemma selectionFrom_filter: "selectionFrom grps sel \<Longrightarrow> selectionFrom grps (filter P sel)"
  by (auto simp: selectionFrom_def)

lemma selectionFrom_single:
  "g \<in> set grps \<Longrightarrow> opt \<in> set (options g) \<Longrightarrow> selectionFrom grps [selectionOf g opt]"
  by (auto simp: selectionFrom_def selectionOf_def)

lemma applyEvent_selectionFrom:
  "eventFrom grps e \<Longrightarrow> selectionFrom grps sel \<Longrightarrow> selectionFrom grps (applyEvent sel e)"
  by (cases e)
     (auto simp: handleOptionToggle_def handleRadioChange_def selectionFrom_append
        selectionFrom_filter selectionFrom_single dest: find_in_set split: option.splits)

lemma foldl_selectionFrom:
  "list_all (eventFrom grps) evs \<Longrightarrow> selectionFrom grps sel
     \<Longrightarrow> selectionFrom grps (foldl applyEvent sel evs)"
  by (induction evs arbitrary: sel) (simp_all add: applyEvent_selectionFrom)

lemma runEvents_selectionFrom:
  "list_all (eventFrom grps) evs \<Longrightarrow> selectionFrom grps (runEvents evs)"
  unfolding runEvents_def by (rule foldl_selectionFrom) (simp_all add: selectionFrom_def)

lemma option_owns_group:
  assumes "catalogOk grps" "selectionFrom grps sel" "grp \<in> set grps" "opt \<in> set (options grp)"
    and "s \<in> set sel" "optionId s = option_id opt"
  shows "groupId s = group_id grp"
proof -
  from assms(2,5) obtain g opt' where g: "g \<in> set grps" "opt' \<in> set (options g)"
    "groupId s = group_id g" "optionId s = option_id opt'"
    unfolding selectionFrom_def by blast
  with assms(1,3,4,6) have "group_id g = group_id grp"
    unfolding catalogOk_def by metis
  with g show ?thesis by simp
qed

lemma toggle_off_other_groups:
  assumes "\<forall>s \<in> set sel. optionId s = option_id opt \<longrightarrow> groupId s = group_id grp"
  shows "filter (\<lambda>s. groupId s \<noteq> group_id grp) (filter (\<lambda>s. optionId s \<noteq> option_id opt) sel)
           = filter (\<lambda>s. groupId s \<noteq> group_id grp) sel"
  using assms by (auto intro: filter_cong)

text \<open>
  Claim C6. In a multi-select group, toggling an option on appends one selection for
  that option, and toggling it off removes the entries of that option and nothing else.
  The selections of the other groups are the same list before and after: always when
  toggling on, and when toggling off as long as the selections of this option reference
  this group, which holds for every selection the dialog reaches from the empty one on a
  catalog where an option belongs to one group.
\<close>

theorem multi_select_toggle:
  "allow_multiple grp \<longrightarrow>
     handleOptionToggle grp opt True sel = sel @ [selectionOf grp opt] \<and>
     handleOptionToggle grp opt False sel = filter (\<lambda>s. optionId s \<noteq> option_id opt) sel \<and>
     filter (\<lambda>s. groupId s \<noteq> group_id grp) (handleOptionToggle grp opt True sel)
       = filter (\<lambda>s. groupId s \<noteq> group_id grp) sel \<and>
     ((\<forall>s \<in> set sel. optionId s = option_id opt \<longrightarrow> groupId s = group_id grp) \<longrightarrow>
        filter (\<lambda>s. groupId s \<noteq> group_id grp) (handleOptionToggle grp opt False sel)
          = filter (\<lambda>s. groupId s \<noteq> group_id grp) sel) \<and>
     (catalogOk grps \<and> list_all (eventFrom grps) evs \<and> grp \<in> set grps \<and>
      opt \<in> set (options grp) \<longrightarrow>
        filter (\<lambda>s. groupId s \<noteq> group_id grp) (handleOptionToggle grp opt False (runEvents evs))
          = filter (\<lambda>s. groupId s \<noteq> group_id grp) (runEvents evs))"
proof -
  have reach: "filter (\<lambda>s. groupId s \<noteq> group_id grp)
                 (filter (\<lambda>s. optionId s \<noteq> option_id opt) (runEvents evs))
               = filter (\<lambda>s. groupId s \<noteq> group_id grp) (runEvents evs)"
    if "catalogOk grps" "list_all (eventFrom grps) evs" "grp \<in> set grps"
       "opt \<in> set (options grp)"
  proof (rule toggle_off_other_groups, intro ballI impI)
    fix s assume "s \<in> set (runEvents evs)" "optionId s = option_id opt"
    with option_owns_group [OF that(1) runEvents_selectionFrom [OF that(2)] that(3,4)]
    show "groupId s = group_id grp" by blast
  qed
  have on: "handleOptionToggle grp opt True sel = sel @ [selectionOf grp opt]"
    if "allow_multiple grp"
    using that by (simp add: handleOptionToggle_def)
  have off: "handleOptionToggle grp opt False xs = filter (\<lambda>s. optionId s \<noteq> option_id opt) xs"
    for xs
    by (simp add: handleOptionToggle_def)
  have frame_on: "filter (\<lambda>s. groupId s \<noteq> group_id grp) (sel @ [selectionOf grp opt])
                    = filter (\<lambda>s. groupId s \<noteq> group_id grp) sel"
    by (simp add: selectionOf_def)
  show ?thesis
    using on frame_on reach toggle_off_other_groups [of sel opt grp]
    unfolding off by presburger
qed

theorem multi_select_toggle_witness:
  "allow_multiple sauces \<and> catalogOk [bread, sauces] \<and>
   runEvents [Radio bread ''o2'', Toggle sauces ketchup True, Toggle sauces mayonnaise True]
     = [selectionOf bread multigrain, selectionOf sauces ketchup, selectionOf sauces mayonnaise] \<and>
   handleOptionToggle sauces mayonnaise True [selectionOf bread multigrain, selectionOf sauces ketchup]
     = [selectionOf bread multigrain, selectionOf sauces ketchup, selectionOf sauces mayonnaise] \<and>
   handleOptionToggle sauces ketchup False
       [selectionOf bread multigrain, selectionOf sauces ketchup, selectionOf sauces mayonnaise]
     = [selectionOf bread multigrain, selectionOf sauces mayonnaise] \<and>
   filter (\<lambda>s. groupId s \<noteq> group_id sauces)
     (handleOptionToggle sauces ketchup False
        (runEvents [Radio bread ''o2'', Toggle sauces ketchup True,
                    Toggle sauces mayonnaise True]))
     = filter (\<lambda>s. groupId s \<noteq> group_id sauces)
         (runEvents [Radio bread ''o2'', Toggle sauces ketchup True,
                     Toggle sauces mayonnaise True]) \<and>
   filter (\<lambda>s. groupId s \<noteq> group_id sauces)
     (runEvents [Radio bread ''o2'', Toggle sauces ketchup True, Toggle sauces mayonnaise True])
     = [selectionOf bread multigrain]"
proof -
  have multi: "allow_multiple sauces"
    by (simp add: example_defs)
  have cat: "catalogOk [bread, sauces]"
    by (simp add: catalogOk_def example_defs)
  have evs: "list_all (eventFrom [bread, sauces])
               [Radio bread ''o2'', Toggle sauces ketchup True, Toggle sauces mayonnaise True]"
    by (simp add: example_defs)
  have mem: "sauces \<in> set [bread, sauces]" "ketchup \<in> set (options sauces)"
    by (simp_all add: example_defs)
  have run: "runEvents [Radio bread ''o2'', Toggle sauces ketchup True,
                        Toggle sauces mayonnaise True]
     = [selectionOf bread multigrain, selectionOf sauces ketchup, selectionOf sauces mayonnaise]"
    by (simp add: runEvents_def handleRadioChange_def handleOptionToggle_def selectionOf_def
        example_defs)
  have on: "handleOptionToggle sauces mayonnaise True
       [selectionOf bread multigrain, selectionOf sauces ketchup]
     = [selectionOf bread multigrain, selectionOf sauces ketchup, selectionOf sauces mayonnaise]"
    by (simp add: handleOptionToggle_def example_defs)
  have off: "handleOptionToggle sauces ketchup False
       [selectionOf bread multigrain, selectionOf sauces ketchup, selectionOf sauces mayonnaise]
     = [selectionOf bread multigrain, selectionOf sauces mayonnaise]"
    by (simp add: handleOptionToggle_def selectionOf_def example_defs)
  have own: "\<forall>s \<in> set [selectionOf bread multigrain, selectionOf sauces ketchup,
                       selectionOf sauces mayonnaise].
               optionId s = option_id ketchup \<longrightarrow> groupId s = group_id sauces"
    by (simp add: selectionOf_def example_defs)
  have others: "filter (\<lambda>s. groupId s \<noteq> group_id sauces)
       [selectionOf bread multigrain, selectionOf sauces ketchup, selectionOf sauces mayonnaise]
     = [selectionOf bread multigrain]"
    by (simp add: selectionOf_def example_defs)
  from multi_select_toggle [of sauces ketchup
      "[selectionOf bread multigrain, selectionOf sauces ketchup, selectionOf sauces mayonnaise]"
      "[bread, sauces]"
      "[Radio bread ''o2'', Toggle sauces ketchup True, Toggle sauces mayonnaise True]"]
    multi cat evs mem own
  have "filter (\<lambda>s. groupId s \<noteq> group_id sauces)
     (handleOptionToggle sauces ketchup False
        (runEvents [Radio bread ''o2'', Toggle sauces ketchup True,
                    Toggle sauces mayonnaise True]))
     = filter (\<lambda>s. groupId s \<noteq> group_id sauces)
         (runEvents [Radio bread ''o2'', Toggle sauces ketchup True,
                     Toggle sauces mayonnaise True])"
    and "filter (\<lambda>s. groupId s \<noteq> group_id sauces)
     (handleOptionToggle sauces ketchup False
        [selectionOf bread multigrain, selectionOf sauces ketchup, selectionOf sauces mayonnaise])
     = filter (\<lambda>s. groupId s \<noteq> group_id sauces)
        [selectionOf bread multigrain, selectionOf sauces ketchup, selectionOf sauces mayonnaise]"
    by blast+
  with multi cat run on off others show ?thesis
    by simp
qed

section \<open>Indexed removal and update\<close>

lemma filter_enumerate_above:
  "k < n \<Longrightarrow> map snd (filter (\<lambda>(idx, item). idx \<noteq> k) (enumerate n xs)) = xs"
  by (induction xs arbitrary: n) auto

lemma filter_enumerate_at:
  "map snd (filter (\<lambda>(idx, item). idx \<noteq> n + i) (enumerate n xs)) = take i xs @ drop (Suc i) xs"
proof (induction xs arbitrary: n i)
  case Nil
  show ?case by simp
next
  case (Cons x xs)
  show ?case
  proof (cases i)
    case 0
    then show ?thesis by (simp add: filter_enumerate_above)
  next
    case (Suc j)
    with Cons.IH [of "Suc n" j] show ?thesis by simp
  qed
qed

lemma int_index_filter:
  "filter (\<lambda>(idx, item). int idx \<noteq> int k) ps = filter (\<lambda>(idx, item). idx \<noteq> k) ps"
  by (rule filter_cong) auto

lemma negative_index_filter:
  "i < 0 \<Longrightarrow> filter (\<lambda>(idx, item). int idx \<noteq> i) ps = ps"
  by (induction ps) auto

lemma removeFromCart_nat:
  "removeFromCart (int k) xs = take k xs @ drop (Suc k) xs"
  using filter_enumerate_at [of 0 k xs]
  by (simp add: removeFromCart_def int_index_filter)

lemma removeFromCart_negative: "i < 0 \<Longrightarrow> removeFromCart i xs = xs"
  by (simp add: removeFromCart_def negative_index_filter)

lemma removeFromCart_beyond: "int (length xs) \<le> i \<Longrightarrow> removeFromCart i xs = xs"
  using removeFromCart_nat [of "nat i" xs] by simp

lemma length_removeFromCart:
  "length (removeFromCart (int k) xs) = (if k < length xs then length xs - 1 else length xs)"
  by (auto simp: removeFromCart_nat)

lemma map_enumerate_above:
  "k < n \<Longrightarrow> map (\<lambda>(idx, item). if idx = k then f item else item) (enumerate n xs) = xs"
  by (induction xs arbitrary: n) auto

lemma map_enumerate_at:
  "map (\<lambda>(idx, item). if idx = n + i then f item else item) (enumerate n xs)
     = (if i < length xs then xs[i := f (xs ! i)] else xs)"
proof (induction xs arbitrary: n i)
  case Nil
  show ?case by simp
next
  case (Cons x xs)
  show ?case
  proof (cases i)
    case 0
    then show ?thesis by (simp add: map_enumerate_above)
  next
    case (Suc j)
    with Cons.IH [of "Suc n" j] show ?thesis by simp
  qed
qed

lemma int_index_map:
  "map (\<lambda>(idx, item). if int idx = int k then f item else item) ps
     = map (\<lambda>(idx, item). if idx = k then f item else item) ps"
  by (rule map_cong) auto

lemma negative_index_map:
  "i < 0 \<Longrightarrow> map (\<lambda>(idx, item). if int idx = i then f item else item) ps = map snd ps"
  by (induction ps) auto

lemma map_snd_enumerate: "map snd (enumerate n xs) = xs"
  by (induction xs arbitrary: n) simp_all

lemma updateCartItem_nat:
  "q \<noteq> 0 \<Longrightarrow> updateCartItem (int k) q cmt xs =
     (if k < length xs then xs[k := (xs ! k)\<lparr>quantity := q, comment := cmt\<rparr>] else xs)"
  using map_enumerate_at [of 0 k "\<lambda>item. item\<lparr>quantity := q, comment := cmt\<rparr>" xs]
  by (simp add: updateCartItem_def int_index_map)

lemma updateCartItem_negative: "q \<noteq> 0 \<Longrightarrow> i < 0 \<Longrightarrow> updateCartItem i q cmt xs = xs"
  unfolding updateCartItem_def by (simp only: negative_index_map map_snd_enumerate if_False)

lemma updateCartItem_zero: "updateCartItem i 0 cmt xs = removeFromCart i xs"
  by (simp add: updateCartItem_def removeFromCart_def)

lemma updateCartItem_out_of_range:
  assumes "i < 0 \<or> int (length xs) \<le> i"
  shows "updateCartItem i q cmt xs = xs"
proof (cases "q = 0")
  case True
  with assms show ?thesis
    by (auto simp: updateCartItem_zero removeFromCart_negative removeFromCart_beyond)
next
  case False
  show ?thesis
  proof (cases "i < 0")
    case True
    with False show ?thesis by (simp add: updateCartItem_negative)
  next
    case nonneg: False
    with assms have "length xs \<le> nat i" by simp
    with False updateCartItem_nat [of q "nat i" cmt xs] nonneg show ?thesis by simp
  qed
qed

lemma remove_twice:
  "(removeFromCart i (removeFromCart i xs) = removeFromCart i xs)
     = (i < 0 \<or> int (length xs) \<le> i + 1)"
proof (cases "i < 0")
  case True
  then show ?thesis by (simp add: removeFromCart_negative)
next
  case False
  then obtain k where k: "i = int k" by (metis not_less int_nat_eq)
  show ?thesis
  proof (cases "Suc k < length xs")
    case True
    then have "length (removeFromCart i (removeFromCart i xs)) \<noteq> length (removeFromCart i xs)"
      unfolding k using True by (simp add: length_removeFromCart) arith
    with True k show ?thesis by auto
  next
    case False
    then have "int (length (removeFromCart i xs)) \<le> i"
      unfolding k by (simp add: length_removeFromCart) arith
    then have "removeFromCart i (removeFromCart i xs) = removeFromCart i xs"
      by (rule removeFromCart_beyond)
    with False k show ?thesis by auto
  qed
qed

text \<open>
  Claim C8, as stated, has removal idempotent: removing the same index twice equals
  removing it once. Removal is by position, so in a cart of two lines the second removal
  at index 0 deletes the line that moved there.
\<close>

theorem removeFromCart_twice_differs:
  "removeFromCart 0 (removeFromCart 0 cartOfTwo) \<noteq> removeFromCart 0 cartOfTwo"
  by (simp add: removeFromCart_def cartOfTwo_def)

text \<open>
  Claim C8, amended. \<^const>\<open>updateCartItem\<close> with quantity 0 gives the cart of
  \<^const>\<open>removeFromCart\<close> at that index. With an index that references no line (negative,
  or at least the length) both leave the cart as it is. At an index of the cart, removal
  deletes that line and keeps the others in order. A second removal at the same index
  changes nothing exactly when the index references the last line or no line; otherwise it
  deletes one more line.
\<close>

theorem remove_and_update_zero:
  "updateCartItem i 0 cmt xs = removeFromCart i xs \<and>
   (i < 0 \<or> int (length xs) \<le> i \<longrightarrow>
      removeFromCart i xs = xs \<and> updateCartItem i q cmt xs = xs) \<and>
   (0 \<le> i \<and> i < int (length xs) \<longrightarrow>
      removeFromCart i xs = take (nat i) xs @ drop (Suc (nat i)) xs) \<and>
   ((removeFromCart i (removeFromCart i xs) = removeFromCart i xs)
      = (i < 0 \<or> int (length xs) \<le> i + 1))"
proof -
  have "removeFromCart i xs = take (nat i) xs @ drop (Suc (nat i)) xs" if "0 \<le> i"
    using removeFromCart_nat [of "nat i" xs] that by simp
  moreover have "removeFromCart i xs = xs" if "i < 0 \<or> int (length xs) \<le> i"
    using that removeFromCart_negative removeFromCart_beyond by blast
  ultimately show ?thesis
    using updateCartItem_zero updateCartItem_out_of_range remove_twice by blast
qed

theorem remove_and_update_zero_witness:
  "updateCartItem 1 0 None cartOfTwo = removeFromCart 1 cartOfTwo \<and>
   removeFromCart 1 cartOfTwo = take (nat 1) cartOfTwo @ drop (Suc (nat 1)) cartOfTwo \<and>
   removeFromCart 1 (removeFromCart 1 cartOfTwo) = removeFromCart 1 cartOfTwo \<and>
   removeFromCart 2 cartOfTwo = cartOfTwo \<and>
   updateCartItem 2 3 None cartOfTwo = cartOfTwo \<and>
   removeFromCart (- 1) cartOfTwo = cartOfTwo \<and>
   updateCartItem (- 1) 0 None cartOfTwo = cartOfTwo"
proof -
  have len: "length cartOfTwo = 2"
    by (simp add: cartOfTwo_def)
  have in_range: "(0::int) \<le> 1 \<and> (1::int) < int (length cartOfTwo)"
    and last_line: "int (length cartOfTwo) \<le> 1 + 1"
    and beyond: "int (length cartOfTwo) \<le> 2"
    and negative: "(- 1 :: int) < 0"
    by (simp_all add: len)
  from remove_and_update_zero [of 1 None cartOfTwo 0] in_range last_line
  have at_one: "updateCartItem 1 0 None cartOfTwo = removeFromCart 1 cartOfTwo \<and>
     removeFromCart 1 cartOfTwo = take (nat 1) cartOfTwo @ drop (Suc (nat 1)) cartOfTwo \<and>
     removeFromCart 1 (removeFromCart 1 cartOfTwo) = removeFromCart 1 cartOfTwo"
    by blast
  from remove_and_update_zero [of 2 None cartOfTwo 3] beyond
  have at_two: "removeFromCart 2 cartOfTwo = cartOfTwo \<and>
     updateCartItem 2 3 None cartOfTwo = cartOfTwo"
    by blast
  from remove_and_update_zero [of "- 1" None cartOfTwo 0] negative
  have at_minus: "removeFromCart (- 1) cartOfTwo = cartOfTwo \<and>
     updateCartItem (- 1) 0 None cartOfTwo = cartOfTwo"
    by blast
  from at_one at_two at_minus show ?thesis
    by blast
qed

text \<open>
  Claim C9. \<^const>\<open>updateCartItem\<close> with a positive quantity at an index of the cart
  replaces the quantity and the comment of that line and nothing else: its selected
  options, its price and the other fields of the dish are the same, so the line is not
  re-priced; every other line of the cart is unchanged and stays in place.
\<close>

theorem update_keeps_other_fields:
  "0 < q \<and> i < length xs \<longrightarrow>
     updateCartItem (int i) q cmt xs = xs[i := (xs ! i)\<lparr>quantity := q, comment := cmt\<rparr>] \<and>
     length (updateCartItem (int i) q cmt xs) = length xs \<and>
     (\<forall>j < length xs. j \<noteq> i \<longrightarrow> updateCartItem (int i) q cmt xs ! j = xs ! j) \<and>
     selectedOptions (updateCartItem (int i) q cmt xs ! i) = selectedOptions (xs ! i) \<and>
     price (updateCartItem (int i) q cmt xs ! i) = price (xs ! i) \<and>
     dish_id (updateCartItem (int i) q cmt xs ! i) = dish_id (xs ! i) \<and>
     dish_name (updateCartItem (int i) q cmt xs ! i) = dish_name (xs ! i) \<and>
     description (updateCartItem (int i) q cmt xs ! i) = description (xs ! i) \<and>
     category (updateCartItem (int i) q cmt xs ! i) = category (xs ! i) \<and>
     image_url (updateCartItem (int i) q cmt xs ! i) = image_url (xs ! i) \<and>
     is_available (updateCartItem (int i) q cmt xs ! i) = is_available (xs ! i)"
  by (simp add: updateCartItem_nat)

theorem update_keeps_other_fields_witness:
  "updateCartItem (int 0) 3 (Some ''well done'') cartOfTwo
     = [cartItemOf burger 3 (Some [selectionOf bread brioche]) (Some ''well done''),
        cartItemOf pizza 1 (Some []) None] \<and>
   selectedOptions (updateCartItem (int 0) 3 (Some ''well done'') cartOfTwo ! 0)
     = Some [selectionOf bread brioche] \<and>
   price (updateCartItem (int 0) 3 (Some ''well done'') cartOfTwo ! 0) = 8 \<and>
   updateCartItem (int 0) 3 (Some ''well done'') cartOfTwo ! 1 = cartOfTwo ! 1"
proof -
  have pre: "(0::int) < 3 \<and> 0 < length cartOfTwo" "(1::nat) < length cartOfTwo"
    by (simp_all add: cartOfTwo_def)
  have upd: "cartOfTwo[0 := (cartOfTwo ! 0)\<lparr>quantity := 3, comment := Some ''well done''\<rparr>]
     = [cartItemOf burger 3 (Some [selectionOf bread brioche]) (Some ''well done''),
        cartItemOf pizza 1 (Some []) None]"
    by (simp add: cartOfTwo_def cartItemOf_def)
  have fields: "selectedOptions (cartOfTwo ! 0) = Some [selectionOf bread brioche]"
    "price (cartOfTwo ! 0) = 8"
    by (simp_all add: cartOfTwo_def cartItemOf_def example_defs)
  from update_keeps_other_fields [of 3 0 cartOfTwo "Some ''well done''"] pre
  have "updateCartItem (int 0) 3 (Some ''well done'') cartOfTwo
          = cartOfTwo[0 := (cartOfTwo ! 0)\<lparr>quantity := 3, comment := Some ''well done''\<rparr>]"
    and "selectedOptions (updateCartItem (int 0) 3 (Some ''well done'') cartOfTwo ! 0)
          = selectedOptions (cartOfTwo ! 0)"
    and "price (updateCartItem (int 0) 3 (Some ''well done'') cartOfTwo ! 0)
          = price (cartOfTwo ! 0)"
    and "updateCartItem (int 0) 3 (Some ''well done'') cartOfTwo ! 1 = cartOfTwo ! 1"
    by auto
  with upd fields show ?thesis
    by simp
qed

text \<open>
  Claim C10. \<^const>\<open>updateCartItem\<close> with a positive quantity at an index of the cart
  sets the comment of that line to the comment argument. A call that leaves the argument
  out passes \<^verbatim>\<open>undefined\<close>, here \<^const>\<open>None\<close>, and the line's earlier comment is gone.
\<close>

theorem update_sets_comment:
  "0 < q \<and> 0 \<le> i \<and> i < int (length xs) \<longrightarrow>
     comment (updateCartItem i q cmt xs ! nat i) = cmt \<and>
     comment (updateCartItem i q None xs ! nat i) = None \<and>
     quantity (updateCartItem i q cmt xs ! nat i) = q"
  using updateCartItem_nat [of q "nat i" _ xs] by auto

theorem update_sets_comment_witness:
  "comment (cartOfTwo ! nat 0) = Some ''no onions'' \<and>
   comment (updateCartItem 0 2 None cartOfTwo ! nat 0) = None \<and>
   quantity (updateCartItem 0 2 None cartOfTwo ! nat 0) = 2"
proof -
  have pre: "(0::int) < 2 \<and> (0::int) \<le> 0 \<and> 0 < int (length cartOfTwo)"
    by (simp add: cartOfTwo_def)
  have before: "comment (cartOfTwo ! nat 0) = Some ''no onions''"
    by (simp add: cartOfTwo_def cartItemOf_def)
  from update_sets_comment [of 2 0 cartOfTwo None] pre before show ?thesis
    by blast
qed

section \<open>Adding to the cart\<close>

lemma find_None_iff_id:
  "(find (\<lambda>item. dish_id item = d) prev = None) = (d \<notin> dish_id ` set prev)"
  by (auto simp: find_None_iff)

text \<open>
  Claim C7, as stated, has the cart's add operation fail with a validation error when the
  validator rejects the selection, and append a line also for a dish that is in the cart.
  \<^const>\<open>addToCart\<close> does not validate: for the burger with no bread chosen, the
  operation of the specification fails and \<^const>\<open>addToCart\<close> returns a cart with the
  line in it. On the menu page without options, adding the pizza to a cart that holds it
  appends nothing.
\<close>

theorem addToCart_never_fails:
  "Inr (addToCart burger [] [] []) \<noteq> addLineItem_spec [bread] burger [] [] [] \<and>
   length (addToCart_plain pizza [cartItemOf pizza 1 None None]) = 1"
  by (simp add: addLineItem_spec_def isGroupValid_spec_def selectionCount_def
      addToCart_plain_def cartItemOf_def example_defs)

text \<open>
  Claim C7, amended. \<^const>\<open>addToCart\<close> of the menu page with options and of the kids'
  menu page appends one line with quantity 1 at the end of the cart, whatever the cart
  holds, and never fails; it agrees with the specification's operation when the validator
  accepts. A rejected selection is stopped before the call: \<^const>\<open>handleAddToCart\<close>
  calls \<^const>\<open>addToCart\<close> only when \<^const>\<open>canAddToCart\<close> holds. On the menu page
  without options \<^const>\<open>addToCart_plain\<close> appends a line with quantity 1 for a dish that
  is not in the cart, and for a dish in the cart adds 1 to the quantity of its lines, the
  cart keeping its length.
\<close>

theorem addToCart_appends:
  "addToCart dish sel cmt prev
     = prev @ [cartItemOf dish 1 (Some sel) (if cmt = [] then None else Some cmt)] \<and>
   length (addToCart dish sel cmt prev) = Suc (length prev) \<and>
   take (length prev) (addToCart dish sel cmt prev) = prev \<and>
   quantity (last (addToCart dish sel cmt prev)) = 1 \<and>
   dish_id (last (addToCart dish sel cmt prev)) = dish_id dish \<and>
   (list_all (isGroupValid_spec sel) grps \<longrightarrow>
      addLineItem_spec grps dish sel cmt prev = Inr (addToCart dish sel cmt prev)) \<and>
   cart (handleAddToCart st) =
     (case selectedDish st of
        None \<Rightarrow> cart st
      | Some d \<Rightarrow>
          if canAddToCart (optionGroups st) (dialogSelectedOptions st)
          then addToCart d (dialogSelectedOptions st) (dialogComment st) (cart st)
          else cart st) \<and>
   (dish_id dish \<notin> dish_id ` set prev \<longrightarrow>
      addToCart_plain dish prev = prev @ [cartItemOf dish 1 None None]) \<and>
   (dish_id dish \<in> dish_id ` set prev \<longrightarrow>
      addToCart_plain dish prev =
        map (\<lambda>item. if dish_id item = dish_id dish
                     then item\<lparr>quantity := quantity item + 1\<rparr> else item) prev \<and>
      length (addToCart_plain dish prev) = length prev)"
proof -
  have plain_new: "addToCart_plain dish prev = prev @ [cartItemOf dish 1 None None]"
    if "dish_id dish \<notin> dish_id ` set prev"
    using that find_None_iff_id [of "dish_id dish" prev] by (simp add: addToCart_plain_def)
  have plain_old: "addToCart_plain dish prev =
        map (\<lambda>item. if dish_id item = dish_id dish
                     then item\<lparr>quantity := quantity item + 1\<rparr> else item) prev"
    if "dish_id dish \<in> dish_id ` set prev"
    using that find_None_iff_id [of "dish_id dish" prev]
    by (auto simp: addToCart_plain_def split: option.splits)
  have handler: "cart (handleAddToCart st) =
     (case selectedDish st of
        None \<Rightarrow> cart st
      | Some d \<Rightarrow>
          if canAddToCart (optionGroups st) (dialogSelectedOptions st)
          then addToCart d (dialogSelectedOptions st) (dialogComment st) (cart st)
          else cart st)"
    by (simp add: handleAddToCart_def onClose_def onAddToCart_def split: option.splits)
  have append: "addToCart dish sel cmt prev
     = prev @ [cartItemOf dish 1 (Some sel) (if cmt = [] then None else Some cmt)]"
    by (simp add: addToCart_def)
  have spec: "addLineItem_spec grps dish sel cmt prev = Inr (addToCart dish sel cmt prev)"
    if "list_all (isGroupValid_spec sel) grps"
    using that by (simp add: addLineItem_spec_def addToCart_def)
  have fields: "quantity (last (addToCart dish sel cmt prev)) = 1"
    "dish_id (last (addToCart dish sel cmt prev)) = dish_id dish"
    by (simp_all add: addToCart_def cartItemOf_def)
  show ?thesis
    using plain_new plain_old handler spec fields
    by (simp add: append)
qed

theorem addToCart_appends_witness:
  "addToCart burger [selectionOf bread multigrain] [] cartOfTwo
     = cartOfTwo @ [cartItemOf burger 1 (Some [selectionOf bread multigrain]) None] \<and>
   length (addToCart burger [selectionOf bread multigrain] [] cartOfTwo) = 3 \<and>
   list_all (isGroupValid_spec [selectionOf bread multigrain]) [bread, sauces] \<and>
   addLineItem_spec [bread, sauces] burger [selectionOf bread multigrain] [] cartOfTwo
     = Inr (addToCart burger [selectionOf bread multigrain] [] cartOfTwo) \<and>
   cart (handleAddToCart dialogComplete)
     = [cartItemOf burger 1 (Some [selectionOf bread multigrain]) (Some ''no onions'')] \<and>
   cart (handleAddToCart dialogBlocked) = [] \<and>
   addToCart_plain burger [cartItemOf pizza 1 None None]
     = [cartItemOf pizza 1 None None, cartItemOf burger 1 None None] \<and>
   addToCart_plain pizza [cartItemOf pizza 1 None None] = [cartItemOf pizza 2 None None]"
proof -
  have len: "length cartOfTwo = 2"
    by (simp add: cartOfTwo_def)
  have valid: "list_all (isGroupValid_spec [selectionOf bread multigrain]) [bread, sauces]"
    by (simp add: isGroupValid_spec_def selectionCount_def selectionOf_def example_defs)
  have absent: "dish_id burger \<notin> dish_id ` set [cartItemOf pizza 1 None None]"
    and present: "dish_id pizza \<in> dish_id ` set [cartItemOf pizza 1 None None]"
    by (simp_all add: cartItemOf_def example_defs)
  have complete: "selectedDish dialogComplete = Some burger"
    "canAddToCart (optionGroups dialogComplete) (dialogSelectedOptions dialogComplete)"
    "dialogSelectedOptions dialogComplete = [selectionOf bread multigrain]"
    "dialogComment dialogComplete = ''no onions''"
    "cart dialogComplete = []"
    by (simp_all add: dialogComplete_def dialogBlocked_def canAddToCart_def isGroupValid_def
        selectionOf_def example_defs)
  have blocked: "selectedDish dialogBlocked = Some burger"
    "\<not> canAddToCart (optionGroups dialogBlocked) (dialogSelectedOptions dialogBlocked)"
    "cart dialogBlocked = []"
    by (simp_all add: dialogBlocked_def canAddToCart_def isGroupValid_def selectionOf_def
        example_defs)
  have bump: "map (\<lambda>item. if dish_id item = dish_id pizza
                           then item\<lparr>quantity := quantity item + 1\<rparr> else item)
                [cartItemOf pizza 1 None None] = [cartItemOf pizza 2 None None]"
    by (simp add: cartItemOf_def)
  have one: "addToCart burger [selectionOf bread multigrain] ''no onions'' []
     = [cartItemOf burger 1 (Some [selectionOf bread multigrain]) (Some ''no onions'')]"
    by (simp add: addToCart_def)
  from addToCart_appends [of burger "[selectionOf bread multigrain]" "[]" cartOfTwo
      "[bread, sauces]" dialogComplete] valid complete len
  have first: "addToCart burger [selectionOf bread multigrain] [] cartOfTwo
       = cartOfTwo @ [cartItemOf burger 1 (Some [selectionOf bread multigrain]) None]"
    "length (addToCart burger [selectionOf bread multigrain] [] cartOfTwo) = 3"
    "addLineItem_spec [bread, sauces] burger [selectionOf bread multigrain] [] cartOfTwo
       = Inr (addToCart burger [selectionOf bread multigrain] [] cartOfTwo)"
    "cart (handleAddToCart dialogComplete)
       = addToCart burger [selectionOf bread multigrain] ''no onions'' []"
    by simp_all
  from addToCart_appends [of burger "[]" "[]" "[cartItemOf pizza 1 None None]" "[]"
      dialogBlocked] absent blocked
  have second: "cart (handleAddToCart dialogBlocked) = []"
    "addToCart_plain burger [cartItemOf pizza 1 None None]
       = [cartItemOf pizza 1 None None, cartItemOf burger 1 None None]"
    by simp_all
  from addToCart_appends [of pizza "[]" "[]" "[cartItemOf pizza 1 None None]" "[]"
      dialogBlocked] present bump
  have third: "addToCart_plain pizza [cartItemOf pizza 1 None None]
       = [cartItemOf pizza 2 None None]"
    by simp
  from first second third valid one show ?thesis
    by simp
qed

section \<open>The dialog's guard on adding\<close>










section \<open>Order lifecycle\<close>




lemma offered_one: "status ord \<noteq> paid \<Longrightarrow> \<exists>t. offeredActions ord = [t]"
  by (cases "status ord") (simp_all add: offeredActions_def)







lemma inStep_fetched: "inStep db (page\<lparr>orders := db\<rparr>)"
  by (simp add: inStep_def)






end
